theory Spec2Isabelle
  imports Complex_Main "HOL-Library.Sublist"
begin

section \<open>Progress metrics of the personal security checklist\<close>

text \<open>
  A shallow embedding of \<^verbatim>\<open>web/src/components/psc/progress.tsx\<close>: the id
  normalisation, \<^verbatim>\<open>calculateProgress\<close>, \<^verbatim>\<open>filterByPriority\<close>, the percentage
  computed by \<^verbatim>\<open>makeDataAndDrawChart\<close> and the dataset built by \<^verbatim>\<open>makeRadarData\<close>.

  The QRL wrappers \<^verbatim>\<open>$(...)\<close> make every one of these functions return a promise. A
  promise that resolves is modelled by the value it resolves to (\<open>Inr\<close>), a promise that
  rejects by the exception it rejects with (\<open>Inl\<close>).
\<close>

subsection \<open>Strings\<close>

text \<open>
  Strings are character lists. \<^verbatim>\<open>toLowerCase\<close> and \<^verbatim>\<open>toUpperCase\<close> are modelled on the
  letters of ASCII: codes 65 to 90 are the capitals, 97 to 122 the small letters, and every
  other character is left as it is.
\<close>

definition lowerChar :: "char \<Rightarrow> char" where
  "lowerChar c =
     (let n = (of_char c :: nat) in if 65 \<le> n \<and> n \<le> 90 then char_of (n + 32) else c)"

definition upperChar :: "char \<Rightarrow> char" where
  "upperChar c =
     (let n = (of_char c :: nat) in if 97 \<le> n \<and> n \<le> 122 then char_of (n - 32) else c)"

definition toLowerCase :: "string \<Rightarrow> string" where
  "toLowerCase s = map lowerChar s"

definition toUpperCase :: "string \<Rightarrow> string" where
  "toUpperCase s = map upperChar s"

text \<open>\<^verbatim>\<open>s.replace(/ /g, '-')\<close>: every space becomes a hyphen.\<close>

definition replaceSpaces :: "string \<Rightarrow> string" where
  "replaceSpaces s = map (\<lambda>c. if c = CHR '' '' then CHR ''-'' else c) s"

text \<open>
  \<^verbatim>\<open>(pri: string) => pri.toLowerCase().replace(/ /g, '-')\<close>, the local function
  \<^verbatim>\<open>normalize\<close> of \<^verbatim>\<open>filterByPriority\<close>; \<^verbatim>\<open>calculateProgress\<close> applies the same expression to
  \<^verbatim>\<open>item.point\<close>.
\<close>

definition normalize_str :: "string \<Rightarrow> string" where
  "normalize_str pri = replaceSpaces (toLowerCase pri)"

subsection \<open>The data model\<close>

text \<open>
  Modelled from the spec: the declarations of \<^verbatim>\<open>Priority\<close>, \<^verbatim>\<open>Section\<close> and \<^verbatim>\<open>Sections\<close>
  in \<^verbatim>\<open>~/types/PSC\<close> are not among the sources. An item has the fields \<^verbatim>\<open>point\<close> and
  \<^verbatim>\<open>priority\<close>, a section the fields \<^verbatim>\<open>title\<close> and \<^verbatim>\<open>checklist\<close>, an ordered sequence of
  items; these are the fields the component reads. Any further field of an item or of a
  section is the extension of the record. A priority is a string: the component compares
  priorities as strings, after normalisation.
\<close>

record item =
  point :: string
  priority :: string

record 'i Section =
  title :: string
  checklist :: "'i list"

text \<open>
  Modelled from the spec: the hook \<^verbatim>\<open>useLocalStorage\<close> is not among the sources. The value
  of \<^verbatim>\<open>useLocalStorage('PSC_PROGRESS', {})\<close> and of \<^verbatim>\<open>useLocalStorage('PSC_IGNORED', {})\<close> is
  a plain object, \<^verbatim>\<open>{}\<close> by default, whose own keys are normalised ids and whose values are
  booleans; \<open>store\<close> is the mapping of its own keys. The guard \<^verbatim>\<open>!checkedItems.value\<close> of
  \<^verbatim>\<open>calculateProgress\<close> allows for a value that is absent (\<^verbatim>\<open>null\<close> or \<^verbatim>\<open>undefined\<close>); an
  absent value is \<open>None\<close>.
\<close>

type_synonym store = "string \<rightharpoonup> bool"

text \<open>
  The property names that a plain object inherits from \<^verbatim>\<open>Object.prototype\<close>. Each of them
  holds a function or, for \<^verbatim>\<open>__proto__\<close>, the prototype object itself: a truthy value.
\<close>

definition Object_prototype_keys :: "string list" where
  "Object_prototype_keys =
     [''constructor'', ''__defineGetter__'', ''__defineSetter__'', ''hasOwnProperty'',
      ''__lookupGetter__'', ''__lookupSetter__'', ''isPrototypeOf'', ''propertyIsEnumerable'',
      ''toString'', ''valueOf'', ''__proto__'', ''toLocaleString'']"

text \<open>
  The truthiness of the property read \<^verbatim>\<open>checkedItems.value[id]\<close> or
  \<^verbatim>\<open>ignoredItems.value[id]\<close>. An own key gives its boolean. A key that the object does not
  own is looked up in the prototype: the read gives the inherited value, truthy, for a
  property name of \<^verbatim>\<open>Object.prototype\<close>, and \<^verbatim>\<open>undefined\<close>, falsy, for any other key.
\<close>

definition truthy :: "store \<Rightarrow> string \<Rightarrow> bool" where
  "truthy m k = (case m k of None \<Rightarrow> k \<in> set Object_prototype_keys | Some b \<Rightarrow> b)"

record progress =
  completed :: int
  outOf :: int

datatype error = TypeError

subsection \<open>Numbers\<close>

text \<open>
  The counters are integers. A percentage is a JavaScript number: a finite value, here an
  exact rational (the rounding of doubles and the sign of zero are not modelled), an
  infinity or \<^verbatim>\<open>NaN\<close>.
\<close>

datatype jsnum = Num rat | PosInf | NegInf | NaN

fun js_div :: "jsnum \<Rightarrow> jsnum \<Rightarrow> jsnum" where
  "js_div (Num a) (Num b) =
     (if b \<noteq> 0 then Num (a / b)
      else if a = 0 then NaN else if 0 < a then PosInf else NegInf)"
| "js_div NaN y = NaN"
| "js_div x NaN = NaN"
| "js_div (Num a) y = Num 0"
| "js_div PosInf (Num b) = (if 0 \<le> b then PosInf else NegInf)"
| "js_div NegInf (Num b) = (if 0 \<le> b then NegInf else PosInf)"
| "js_div x y = NaN"

fun js_mul :: "jsnum \<Rightarrow> jsnum \<Rightarrow> jsnum" where
  "js_mul (Num a) (Num b) = Num (a * b)"
| "js_mul NaN y = NaN"
| "js_mul x NaN = NaN"
| "js_mul PosInf (Num b) = (if b = 0 then NaN else if 0 < b then PosInf else NegInf)"
| "js_mul NegInf (Num b) = (if b = 0 then NaN else if 0 < b then NegInf else PosInf)"
| "js_mul (Num a) PosInf = (if a = 0 then NaN else if 0 < a then PosInf else NegInf)"
| "js_mul (Num a) NegInf = (if a = 0 then NaN else if 0 < a then NegInf else PosInf)"
| "js_mul PosInf PosInf = PosInf"
| "js_mul NegInf NegInf = PosInf"
| "js_mul PosInf NegInf = NegInf"
| "js_mul NegInf PosInf = NegInf"

text \<open>\<^verbatim>\<open>Math.round\<close>: the nearest integer, a half rounded up; infinities and \<^verbatim>\<open>NaN\<close> stay.\<close>

fun Math_round :: "jsnum \<Rightarrow> jsnum" where
  "Math_round (Num a) = Num (of_int \<lfloor>a + 1 / 2\<rfloor>)"
| "Math_round x = x"

subsection \<open>calculateProgress\<close>

text \<open>
  The inner \<^verbatim>\<open>forEach\<close> over the items of one checklist. The state is the pair of the
  counters \<^verbatim>\<open>totalComplete\<close> and \<^verbatim>\<open>totalItems\<close>. \<^verbatim>\<open>checkedItems.value\<close> is an object here
  (the guard of \<^verbatim>\<open>calculateProgress\<close> has passed); \<^verbatim>\<open>ignoredItems.value[id]\<close> throws a
  \<^verbatim>\<open>TypeError\<close> when \<^verbatim>\<open>ignoredItems.value\<close> is absent.
\<close>

fun forEach_item ::
  "store \<Rightarrow> store option \<Rightarrow> 'b item_scheme list \<Rightarrow> int \<times> int \<Rightarrow> error + int \<times> int"
where
  "forEach_item checked ignoredItems [] st = Inr st"
| "forEach_item checked ignoredItems (it # its) (totalComplete, totalItems) =
     (let id = normalize_str (point it);
          isComplete = truthy checked id
      in case ignoredItems of
           None \<Rightarrow> Inl TypeError
         | Some ignored \<Rightarrow>
             (let isIgnored = truthy ignored id;
                  totalComplete' = (if isComplete then totalComplete + 1 else totalComplete);
                  totalItems' = (if isIgnored then totalItems - 1 else totalItems)
              in forEach_item checked ignoredItems its (totalComplete', totalItems')))"

text \<open>The outer \<^verbatim>\<open>forEach\<close> over the sections.\<close>

fun forEach_section ::
  "store \<Rightarrow> store option \<Rightarrow> ('b item_scheme, 'a) Section_scheme list \<Rightarrow> int \<times> int
     \<Rightarrow> error + int \<times> int"
where
  "forEach_section checked ignoredItems [] st = Inr st"
| "forEach_section checked ignoredItems (s # ss) st =
     (case forEach_item checked ignoredItems (checklist s) st of
        Inl e \<Rightarrow> Inl e
      | Inr st' \<Rightarrow> forEach_section checked ignoredItems ss st')"

text \<open>
  \<^verbatim>\<open>calculateProgress\<close> closes over the two signals; they are the first two arguments.
\<close>

definition calculateProgress ::
  "store option \<Rightarrow> store option \<Rightarrow> ('b item_scheme, 'a) Section_scheme list
     \<Rightarrow> error + progress"
where
  "calculateProgress checkedItems ignoredItems sections =
     (case checkedItems of
        None \<Rightarrow> Inr \<lparr>completed = 0, outOf = 0\<rparr>
      | Some checked \<Rightarrow>
          if length sections = 0 then Inr \<lparr>completed = 0, outOf = 0\<rparr>
          else
            (let totalItems =
                   foldl (\<lambda>total s. total + int (length (checklist s))) 0 sections
             in case forEach_section checked ignoredItems sections (0, totalItems) of
                  Inl e \<Rightarrow> Inl e
                | Inr (totalComplete, totalItems') \<Rightarrow>
                    Inr \<lparr>completed = totalComplete, outOf = totalItems'\<rparr>))"

subsection \<open>filterByPriority\<close>

definition filterByPriority ::
  "('b item_scheme, 'a) Section_scheme list \<Rightarrow> string
     \<Rightarrow> ('b item_scheme, 'a) Section_scheme list"
where
  "filterByPriority sections pri =
     map (\<lambda>s. s\<lparr>checklist :=
                  filter (\<lambda>it. normalize_str (priority it) = normalize_str pri) (checklist s)\<rparr>)
       sections"

subsection \<open>The percentage of the gauges\<close>

text \<open>
  \<^verbatim>\<open>makeDataAndDrawChart(priority, color)\<close> filters the catalog, aggregates, and hands
  \<^verbatim>\<open>Math.round((completed / outOf) * 100)\<close> to \<^verbatim>\<open>drawProgress\<close>. The model returns that
  number; the drawing is outside the model.
\<close>

definition makeDataAndDrawChart ::
  "store option \<Rightarrow> store option \<Rightarrow> ('b item_scheme, 'a) Section_scheme list \<Rightarrow> string
     \<Rightarrow> error + jsnum"
where
  "makeDataAndDrawChart checkedItems ignoredItems checklists pri =
     (case calculateProgress checkedItems ignoredItems (filterByPriority checklists pri) of
        Inl e \<Rightarrow> Inl e
      | Inr p \<Rightarrow>
          Inr (Math_round
                 (js_mul (js_div (Num (of_int (completed p))) (Num (of_int (outOf p))))
                    (Num 100))))"

subsection \<open>makeRadarData\<close>

definition calculatePercentage ::
  "store option \<Rightarrow> store option \<Rightarrow> ('b item_scheme, 'a) Section_scheme \<Rightarrow> string
     \<Rightarrow> error + jsnum"
where
  "calculatePercentage checkedItems ignoredItems s pri =
     (let filteredSections = filterByPriority [s] pri
      in case calculateProgress checkedItems ignoredItems filteredSections of
           Inl e \<Rightarrow> Inl e
         | Inr p \<Rightarrow>
             Inr (if 0 < outOf p
                  then js_mul (js_div (Num (of_int (completed p))) (Num (of_int (outOf p))))
                         (Num 100)
                  else Num 0))"

text \<open>
  \<^verbatim>\<open>Promise.all\<close>: the list of the values when every promise resolves, a rejection when
  one rejects.
\<close>

fun Promise_all :: "(error + 'v) list \<Rightarrow> error + 'v list" where
  "Promise_all [] = Inr []"
| "Promise_all (p # ps) =
     (case p of
        Inl e \<Rightarrow> Inl e
      | Inr v \<Rightarrow> (case Promise_all ps of Inl e \<Rightarrow> Inl e | Inr vs \<Rightarrow> Inr (v # vs)))"

record dataset =
  borderWidth :: nat
  label :: string
  data :: "jsnum list"
  backgroundColor :: string

record RadarChartData =
  labels :: "string list"
  datasets :: "dataset list"

text \<open>\<^verbatim>\<open>priority.charAt(0).toUpperCase() + priority.slice(1)\<close>\<close>

definition capitalize :: "string \<Rightarrow> string" where
  "capitalize pri = toUpperCase (take 1 pri) @ drop 1 pri"

definition buildDataForPriority ::
  "store option \<Rightarrow> store option \<Rightarrow> ('b item_scheme, 'a) Section_scheme list \<Rightarrow> string
     \<Rightarrow> string \<Rightarrow> error + dataset"
where
  "buildDataForPriority checkedItems ignoredItems sections pri color =
     (case Promise_all (map (\<lambda>s. calculatePercentage checkedItems ignoredItems s pri) sections) of
        Inl e \<Rightarrow> Inl e
      | Inr d \<Rightarrow>
          Inr \<lparr>borderWidth = 1, label = capitalize pri, data = d, backgroundColor = color\<rparr>)"

definition makeRadarData ::
  "store option \<Rightarrow> store option \<Rightarrow> ('b item_scheme, 'a) Section_scheme list
     \<Rightarrow> error + RadarChartData"
where
  "makeRadarData checkedItems ignoredItems sections =
     (let labels = map title sections
      in case Promise_all
                [buildDataForPriority checkedItems ignoredItems sections
                   ''advanced'' ''hsl(0 91% 71%/75%)'',
                 buildDataForPriority checkedItems ignoredItems sections
                   ''optional'' ''hsl(43 96% 56%/75%)'',
                 buildDataForPriority checkedItems ignoredItems sections
                   ''recommended'' ''hsl(158 64% 52%/75%)''] of
           Inl e \<Rightarrow> Inl e
         | Inr ds \<Rightarrow> Inr \<lparr>labels = labels, datasets = ds\<rparr>)"

subsection \<open>Counting, as the specification words it\<close>

text \<open>
  The items of a catalog in catalog order, and the number of items of a list whose
  normalised id maps to \<^verbatim>\<open>true\<close> in a mapping.
\<close>

definition allItems :: "('b item_scheme, 'a) Section_scheme list \<Rightarrow> 'b item_scheme list" where
  "allItems sections = concat (map checklist sections)"

definition countTrue :: "store \<Rightarrow> 'b item_scheme list \<Rightarrow> int" where
  "countTrue m its = int (length (filter (\<lambda>it. m (normalize_str (point it)) = Some True) its))"

text \<open>
  The number of items of a list for which the property read of the loop is truthy.
\<close>

definition countTruthy :: "store \<Rightarrow> 'b item_scheme list \<Rightarrow> int" where
  "countTruthy m its = int (length (filter (\<lambda>it. truthy m (normalize_str (point it))) its))"

text \<open>The percentage of a result: \<^verbatim>\<open>outOf > 0 ? completed/outOf*100 : 0\<close>.\<close>

definition percentOf :: "progress \<Rightarrow> jsnum" where
  "percentOf p =
     (if 0 < outOf p then Num (of_int (completed p) / of_int (outOf p) * 100) else Num 0)"

text \<open>The three tiers, in the order in which \<^verbatim>\<open>makeRadarData\<close> builds their series.\<close>

definition tiers :: "string list" where
  "tiers = [''advanced'', ''optional'', ''recommended'']"

subsection \<open>An example catalog\<close>

text \<open>
  One section \<^verbatim>\<open>Auth\<close> with the items \<^verbatim>\<open>Use MFA\<close> (recommended) and \<^verbatim>\<open>Rotate Keys\<close>
  (optional); a third item with a priority that is none of the three tiers; an item whose
  normalised id, \<^verbatim>\<open>constructor\<close>, is a property name of \<^verbatim>\<open>Object.prototype\<close>; and a completion
  state in which \<^verbatim>\<open>use-mfa\<close> is done.
\<close>

definition useMFA :: item where
  "useMFA = \<lparr>point = ''Use MFA'', priority = ''recommended''\<rparr>"

definition rotateKeys :: item where
  "rotateKeys = \<lparr>point = ''Rotate Keys'', priority = ''optional''\<rparr>"


definition constructorItem :: item where
  "constructorItem = \<lparr>point = ''Constructor'', priority = ''recommended''\<rparr>"

definition auth :: "item Section" where
  "auth = \<lparr>title = ''Auth'', checklist = [useMFA, rotateKeys]\<rparr>"

definition emptySection :: "item Section" where
  "emptySection = \<lparr>title = ''Empty'', checklist = []\<rparr>"

definition mfaDone :: store where
  "mfaDone = [''use-mfa'' \<mapsto> True]"


subsection \<open>Lemmas on the normalisation\<close>

lemma lowerChar_idem: "lowerChar (lowerChar c) = lowerChar c"
proof -
  have "of_char (char_of (of_char c + 32 :: nat)) = (of_char c + 32 :: nat)"
    if "(of_char c :: nat) \<le> 90"
    using that by simp
  then show ?thesis
    by (simp add: lowerChar_def Let_def)
qed

lemma lowerChar_space: "lowerChar c = CHR '' '' \<longleftrightarrow> c = CHR '' ''"
proof
  assume h: "lowerChar c = CHR '' ''"
  show "c = CHR '' ''"
  proof (cases "65 \<le> (of_char c :: nat) \<and> (of_char c :: nat) \<le> 90")
    case True
    then have "lowerChar c = char_of (of_char c + 32 :: nat)"
      by (simp add: lowerChar_def Let_def)
    with h have "of_char (char_of (of_char c + 32 :: nat)) = (of_char (CHR '' '') :: nat)"
      by simp
    with True show ?thesis by simp
  next
    case False
    with h show ?thesis by (simp add: lowerChar_def Let_def)
  qed
next
  assume "c = CHR '' ''"
  then show "lowerChar c = CHR '' ''" by (simp add: lowerChar_def)
qed

lemma lowerChar_hyphen: "lowerChar (CHR ''-'') = CHR ''-''"
  by (simp add: lowerChar_def)

lemma normalize_Nil: "normalize_str [] = []"
  by (simp add: normalize_str_def toLowerCase_def replaceSpaces_def)

lemma normalize_Cons:
  "normalize_str (c # s) = (if c = CHR '' '' then CHR ''-'' else lowerChar c) # normalize_str s"
  by (simp add: normalize_str_def toLowerCase_def replaceSpaces_def lowerChar_space)

lemma normalize_length: "length (normalize_str s) = length s"
  by (simp add: normalize_str_def toLowerCase_def replaceSpaces_def)

subsection \<open>The id normalisation\<close>

text \<open>
  C6. The normalisation lowercases and replaces every space by a hyphen:
  \<^verbatim>\<open>normalize("Use Strong Passwords")\<close> is \<^verbatim>\<open>"use-strong-passwords"\<close>, and normalising
  twice is the same as normalising once, for every string.
\<close>

theorem normalize_example_and_idempotent:
  "normalize_str ''Use Strong Passwords'' = ''use-strong-passwords''
   \<and> (\<forall>x. normalize_str (normalize_str x) = normalize_str x)"
proof
  show "normalize_str ''Use Strong Passwords'' = ''use-strong-passwords''"
    by code_simp
next
  have "normalize_str (normalize_str x) = normalize_str x" for x
    by (induction x) (simp_all add: normalize_Nil normalize_Cons lowerChar_idem
        lowerChar_space lowerChar_hyphen)
  then show "\<forall>x. normalize_str (normalize_str x) = normalize_str x" by blast
qed

subsection \<open>Lemmas on calculateProgress\<close>

lemma truthy_True: "m k = Some True \<Longrightarrow> truthy m k"
  by (simp add: truthy_def)

lemma truthy_own:
  "k \<notin> set Object_prototype_keys \<Longrightarrow> truthy m k \<longleftrightarrow> m k = Some True"
  by (auto simp: truthy_def split: option.splits)

lemma countTruthy_append: "countTruthy m (xs @ ys) = countTruthy m xs + countTruthy m ys"
  by (simp add: countTruthy_def)

lemma countTruthy_Cons:
  "countTruthy m (it # its) =
     (if truthy m (normalize_str (point it)) then 1 else 0) + countTruthy m its"
  by (simp add: countTruthy_def)

lemma countTruthy_bounds: "0 \<le> countTruthy m its" "countTruthy m its \<le> int (length its)"
  by (simp_all add: countTruthy_def)

lemma countTruthy_own:
  "\<forall>it\<in>set its. normalize_str (point it) \<notin> set Object_prototype_keys \<Longrightarrow>
     countTruthy m its = countTrue m its"
proof -
  assume "\<forall>it\<in>set its. normalize_str (point it) \<notin> set Object_prototype_keys"
  then have "filter (\<lambda>it. truthy m (normalize_str (point it))) its =
             filter (\<lambda>it. m (normalize_str (point it)) = Some True) its"
    by (intro filter_cong) (simp_all add: truthy_own)
  then show ?thesis by (simp add: countTruthy_def countTrue_def)
qed

lemma allItems_Nil: "allItems [] = []"
  by (simp add: allItems_def)

lemma allItems_Cons: "allItems (s # ss) = checklist s @ allItems ss"
  by (simp add: allItems_def)

lemma allItems_append: "allItems (xs @ ys) = allItems xs @ allItems ys"
  by (simp add: allItems_def)

lemma forEach_item_Some:
  "forEach_item chk (Some ig) its (tc, ti) =
     Inr (tc + countTruthy chk its, ti - countTruthy ig its)"
  by (induction its arbitrary: tc ti) (simp_all add: countTruthy_def Let_def)

lemma forEach_item_None:
  "forEach_item chk None its st = (if its = [] then Inr st else Inl TypeError)"
  by (cases its; cases st) simp_all

lemma forEach_section_Some:
  "forEach_section chk (Some ig) secs (tc, ti) =
     Inr (tc + countTruthy chk (allItems secs), ti - countTruthy ig (allItems secs))"
proof (induction secs arbitrary: tc ti)
  case Nil
  show ?case by (simp add: allItems_Nil countTruthy_def)
next
  case (Cons s ss)
  show ?case
    by (simp add: Cons.IH forEach_item_Some allItems_Cons countTruthy_append)
qed

lemma forEach_section_empty_checklists:
  "\<forall>s\<in>set secs. checklist s = [] \<Longrightarrow> forEach_section chk ign secs st = Inr st"
  by (induction secs) simp_all

lemma foldl_total:
  "foldl (\<lambda>total s. total + int (length (checklist s))) a secs =
     a + (\<Sum>s\<leftarrow>secs. int (length (checklist s)))"
  by (induction secs arbitrary: a) simp_all

lemma foldl_total_empty_checklists:
  "\<forall>s\<in>set secs. checklist s = [] \<Longrightarrow>
     foldl (\<lambda>total s. total + int (length (checklist s))) a secs = a"
  by (induction secs arbitrary: a) simp_all

lemma sum_lengths: "(\<Sum>s\<leftarrow>secs. int (length (checklist s))) = int (length (allItems secs))"
  by (induction secs) (simp_all add: allItems_Nil allItems_Cons)

lemma calculateProgress_Some:
  "calculateProgress (Some chk) (Some ig) secs =
     Inr \<lparr>completed = countTruthy chk (allItems secs),
          outOf = (\<Sum>s\<leftarrow>secs. int (length (checklist s))) - countTruthy ig (allItems secs)\<rparr>"
proof (cases secs)
  case Nil
  then show ?thesis
    by (simp add: calculateProgress_def allItems_def countTruthy_def)
next
  case (Cons s ss)
  then have "length secs \<noteq> 0" by simp
  then show ?thesis
    by (simp add: calculateProgress_def forEach_section_Some foldl_total
        del: forEach_section.simps)
qed

lemma calculateProgress_None:
  "calculateProgress None ign secs = Inr \<lparr>completed = 0, outOf = 0\<rparr>"
  by (simp add: calculateProgress_def)

lemma calculateProgress_total: "\<exists>p. calculateProgress chk (Some ig) secs = Inr p"
  by (cases chk) (simp_all add: calculateProgress_None calculateProgress_Some)

lemma calculateProgress_own_keys:
  "\<forall>it\<in>set (allItems secs). normalize_str (point it) \<notin> set Object_prototype_keys \<Longrightarrow>
     calculateProgress (Some chk) (Some ig) secs =
       Inr \<lparr>completed = countTrue chk (allItems secs),
            outOf = (\<Sum>s\<leftarrow>secs. int (length (checklist s))) - countTrue ig (allItems secs)\<rparr>"
  by (simp add: calculateProgress_Some countTruthy_own)

subsection \<open>The counts of calculateProgress\<close>

text \<open>
  C3. \<^verbatim>\<open>completed\<close> should be the number of items whose normalised id maps to \<^verbatim>\<open>true\<close> in
  the completion state, and \<^verbatim>\<open>outOf\<close> the sum of the checklist lengths minus the number of
  items whose normalised id maps to \<^verbatim>\<open>true\<close> in the ignore state. The loop reads
  \<^verbatim>\<open>checkedItems.value[id]\<close> and \<^verbatim>\<open>ignoredItems.value[id]\<close>, and the read of a key that the
  object does not own follows the prototype. For a catalog of the one item
  \<^verbatim>\<open>Constructor\<close> and two empty states, no id maps to \<^verbatim>\<open>true\<close>, so the counts should be
  \<^verbatim>\<open>{ completed: 0, outOf: 1 }\<close>; \<^verbatim>\<open>calculateProgress\<close> returns \<^verbatim>\<open>{ completed: 1, outOf: 0 }\<close>.
\<close>

theorem calculateProgress_counts_inherited_key:
  "calculateProgress (Some Map.empty) (Some Map.empty)
       [\<lparr>title = ''Misc'', checklist = [constructorItem]\<rparr>] =
     Inr \<lparr>completed = 1, outOf = 0\<rparr>
   \<and> countTrue Map.empty (allItems [\<lparr>title = ''Misc'', checklist = [constructorItem]\<rparr>]) = 0
   \<and> (\<Sum>s\<leftarrow>[\<lparr>title = ''Misc'', checklist = [constructorItem]\<rparr>]. int (length (checklist s)))
       - countTrue Map.empty (allItems [\<lparr>title = ''Misc'', checklist = [constructorItem]\<rparr>]) = 1"
  by code_simp

text \<open>
  C8. For the empty list of sections, and for every list of sections whose checklists are
  all empty, \<^verbatim>\<open>calculateProgress\<close> returns exactly \<^verbatim>\<open>{ completed: 0, outOf: 0 }\<close>; it does
  not throw, whatever the two states are (present or absent).
\<close>

theorem calculateProgress_no_items:
  "calculateProgress chk ign [] = Inr \<lparr>completed = 0, outOf = 0\<rparr>
   \<and> ((\<forall>s\<in>set secs. checklist s = []) \<longrightarrow>
        calculateProgress chk ign secs = Inr \<lparr>completed = 0, outOf = 0\<rparr>)"
  by (simp add: calculateProgress_def forEach_section_empty_checklists
      foldl_total_empty_checklists split: option.splits)

theorem calculateProgress_no_items_witness:
  "checklist emptySection = []
   \<and> calculateProgress (Some mfaDone) None [emptySection, emptySection] =
       Inr \<lparr>completed = 0, outOf = 0\<rparr>"
proof -
  have e: "checklist emptySection = []"
    by (simp add: emptySection_def)
  then have h: "\<forall>s\<in>set [emptySection, emptySection]. checklist s = []"
    by simp
  with calculateProgress_no_items [of "Some mfaDone" None "[emptySection, emptySection]"]
  have "calculateProgress (Some mfaDone) None [emptySection, emptySection] =
          Inr \<lparr>completed = 0, outOf = 0\<rparr>"
    by blast
  with e show ?thesis by blast
qed

text \<open>
  C9. When the completion state is absent, \<^verbatim>\<open>calculateProgress\<close> returns
  \<^verbatim>\<open>{ completed: 0, outOf: 0 }\<close>, here for a catalog of two items. With two empty states
  instead, \<^verbatim>\<open>outOf\<close> should be the number of items, 2, and the empty ignore state should
  take nothing off. One of the two items is \<^verbatim>\<open>Constructor\<close>: the read
  \<^verbatim>\<open>ignoredItems.value['constructor']\<close> of the empty object is truthy, and
  \<^verbatim>\<open>calculateProgress\<close> returns \<^verbatim>\<open>{ completed: 1, outOf: 1 }\<close>.
\<close>

theorem calculateProgress_empty_state_inherited_key:
  "calculateProgress None (Some Map.empty)
       [\<lparr>title = ''Auth'', checklist = [useMFA, constructorItem]\<rparr>] =
     Inr \<lparr>completed = 0, outOf = 0\<rparr>
   \<and> calculateProgress (Some Map.empty) (Some Map.empty)
       [\<lparr>title = ''Auth'', checklist = [useMFA, constructorItem]\<rparr>] =
     Inr \<lparr>completed = 1, outOf = 1\<rparr>
   \<and> int (length (allItems [\<lparr>title = ''Auth'', checklist = [useMFA, constructorItem]\<rparr>])) = 2"
  by code_simp

text \<open>
  C10. For every list of sections, every ignore mapping and every completion state,
  \<^verbatim>\<open>calculateProgress\<close> returns a result with \<open>0 \<le> completed \<le> N\<close> and \<open>outOf \<le> N\<close>, where
  \<open>N\<close> is the number of checklist items of all the sections.
\<close>

theorem calculateProgress_bounds:
  "\<exists>p. calculateProgress chk (Some ig) secs = Inr p
       \<and> 0 \<le> completed p
       \<and> completed p \<le> int (length (allItems secs))
       \<and> outOf p \<le> int (length (allItems secs))"
proof (cases chk)
  case None
  then show ?thesis by (simp add: calculateProgress_None)
next
  case (Some c)
  then show ?thesis
    by (simp add: calculateProgress_Some sum_lengths countTruthy_bounds)
qed

subsection \<open>Lemmas on filterByPriority\<close>

lemma filterByPriority_length: "length (filterByPriority secs t) = length secs"
  by (simp add: filterByPriority_def)

lemma filterByPriority_nth:
  "i < length secs \<Longrightarrow>
     filterByPriority secs t ! i =
       (secs ! i)\<lparr>checklist :=
          filter (\<lambda>it. normalize_str (priority it) = normalize_str t) (checklist (secs ! i))\<rparr>"
  by (simp add: filterByPriority_def)



lemma filterByPriority_Nil: "filterByPriority [] t = []"
  by (simp add: filterByPriority_def)

lemma filter_drop_unmatched:
  "normalize_str (priority it) \<noteq> normalize_str t \<Longrightarrow>
     filter (\<lambda>x. normalize_str (priority x) = normalize_str t) (xs @ it # ys) =
     filter (\<lambda>x. normalize_str (priority x) = normalize_str t) (xs @ ys)"
  by simp



lemma allItems_update:
  "allItems (pre @ s\<lparr>checklist := cl\<rparr> # post) = allItems pre @ cl @ allItems post"
  by (simp add: allItems_append allItems_Cons)

lemma calculateProgress_with_item:
  "calculateProgress (Some chk) (Some ig) (pre @ s\<lparr>checklist := xs @ it # ys\<rparr> # post) =
     Inr \<lparr>completed =
            countTruthy chk (allItems (pre @ s\<lparr>checklist := xs @ ys\<rparr> # post))
              + (if truthy chk (normalize_str (point it)) then 1 else 0),
          outOf =
            int (length (allItems (pre @ s\<lparr>checklist := xs @ ys\<rparr> # post))) + 1
              - countTruthy ig (allItems (pre @ s\<lparr>checklist := xs @ ys\<rparr> # post))
              - (if truthy ig (normalize_str (point it)) then 1 else 0)\<rparr>"
  by (simp add: calculateProgress_Some sum_lengths allItems_update
      countTruthy_append countTruthy_Cons)

lemma calculateProgress_without_item:
  "calculateProgress (Some chk) (Some ig) (pre @ s\<lparr>checklist := xs @ ys\<rparr> # post) =
     Inr \<lparr>completed = countTruthy chk (allItems (pre @ s\<lparr>checklist := xs @ ys\<rparr> # post)),
          outOf =
            int (length (allItems (pre @ s\<lparr>checklist := xs @ ys\<rparr> # post)))
              - countTruthy ig (allItems (pre @ s\<lparr>checklist := xs @ ys\<rparr> # post))\<rparr>"
  by (simp only: calculateProgress_Some sum_lengths)

subsection \<open>What filterByPriority returns\<close>

text \<open>
  C5. For every list of sections and every tier, \<^verbatim>\<open>filterByPriority\<close> returns a list of
  the same length and order: the i-th section of the output has the title (and every
  other field) of the i-th section of the input, and its checklist is the input's
  checklist restricted, in order, to the items whose priority equals the tier after both
  are lowercased and their spaces replaced by hyphens; so it is a subsequence of the
  original checklist and at most as long. The function builds new lists and new section
  objects and assigns to nothing: its argument is the same value after the call.
\<close>

theorem filterByPriority_preserves_sections:
  "length (filterByPriority secs t) = length secs
   \<and> (\<forall>i<length secs.
         title (filterByPriority secs t ! i) = title (secs ! i)
       \<and> Section.more (filterByPriority secs t ! i) = Section.more (secs ! i)
       \<and> checklist (filterByPriority secs t ! i) =
           filter (\<lambda>it. normalize_str (priority it) = normalize_str t) (checklist (secs ! i))
       \<and> subseq (checklist (filterByPriority secs t ! i)) (checklist (secs ! i))
       \<and> length (checklist (filterByPriority secs t ! i)) \<le> length (checklist (secs ! i)))"
  by (simp add: filterByPriority_length filterByPriority_nth)

theorem filterByPriority_preserves_sections_witness:
  "(0::nat) < length [auth]
   \<and> title (filterByPriority [auth] ''Recommended'' ! 0) = ''Auth''
   \<and> checklist (filterByPriority [auth] ''Recommended'' ! 0) = [useMFA]"
proof -
  have e: "filter (\<lambda>it. normalize_str (priority it) = normalize_str ''Recommended'')
             (checklist ([auth] ! 0)) = [useMFA]"
    by code_simp
  have t: "title ([auth] ! 0) = ''Auth''"
    by (simp add: auth_def)
  have h: "(0::nat) < length [auth]" by simp
  with filterByPriority_preserves_sections [of "[auth]" "''Recommended''"]
  have "title (filterByPriority [auth] ''Recommended'' ! 0) = title ([auth] ! 0)
      \<and> checklist (filterByPriority [auth] ''Recommended'' ! 0) =
          filter (\<lambda>it. normalize_str (priority it) = normalize_str ''Recommended'')
            (checklist ([auth] ! 0))"
    by blast
  with e t h show ?thesis by simp
qed

subsection \<open>An item that is both completed and ignored\<close>

text \<open>
  C2. An item whose normalised id maps to \<^verbatim>\<open>true\<close> in both states is counted on both
  sides: the loop body increments \<^verbatim>\<open>totalComplete\<close> and decrements \<^verbatim>\<open>totalItems\<close> for it.
  Against the same catalog without the item, the result has one more completed item and
  the same \<^verbatim>\<open>outOf\<close> (one item more, one ignored). For a catalog of this single item the
  result is \<^verbatim>\<open>{ completed: 1, outOf: 0 }\<close>, so \<^verbatim>\<open>completed > outOf\<close>.
\<close>

theorem completed_and_ignored_item:
  assumes "chk (normalize_str (point it)) = Some True"
      and "ig (normalize_str (point it)) = Some True"
  shows "forEach_item chk (Some ig) (it # its) (totalComplete, totalItems) =
           forEach_item chk (Some ig) its (totalComplete + 1, totalItems - 1)
       \<and> (\<exists>p. calculateProgress (Some chk) (Some ig) (pre @ s\<lparr>checklist := xs @ ys\<rparr> # post)
                 = Inr p
             \<and> calculateProgress (Some chk) (Some ig)
                   (pre @ s\<lparr>checklist := xs @ it # ys\<rparr> # post) =
                 Inr \<lparr>completed = completed p + 1, outOf = outOf p + 1 - 1\<rparr>)
       \<and> (\<exists>p. calculateProgress (Some chk) (Some ig) [\<lparr>title = ttl, checklist = [it]\<rparr>] = Inr p
             \<and> completed p = 1 \<and> outOf p = 0 \<and> outOf p < completed p)"
proof (intro conjI)
  from assms have t: "truthy chk (normalize_str (point it))" "truthy ig (normalize_str (point it))"
    by (simp_all add: truthy_True)
  show "forEach_item chk (Some ig) (it # its) (totalComplete, totalItems) =
           forEach_item chk (Some ig) its (totalComplete + 1, totalItems - 1)"
    using t by (simp add: Let_def)
  show "\<exists>p. calculateProgress (Some chk) (Some ig) (pre @ s\<lparr>checklist := xs @ ys\<rparr> # post)
                 = Inr p
             \<and> calculateProgress (Some chk) (Some ig)
                   (pre @ s\<lparr>checklist := xs @ it # ys\<rparr> # post) =
                 Inr \<lparr>completed = completed p + 1, outOf = outOf p + 1 - 1\<rparr>"
    using t by (simp add: calculateProgress_with_item calculateProgress_without_item)
  show "\<exists>p. calculateProgress (Some chk) (Some ig) [\<lparr>title = ttl, checklist = [it]\<rparr>] = Inr p
             \<and> completed p = 1 \<and> outOf p = 0 \<and> outOf p < completed p"
    using t by (simp add: calculateProgress_Some allItems_def countTruthy_def)
qed

theorem completed_and_ignored_item_witness:
  "mfaDone (normalize_str (point useMFA)) = Some True
   \<and> calculateProgress (Some mfaDone) (Some mfaDone) [\<lparr>title = ''Auth'', checklist = [useMFA]\<rparr>] =
       Inr \<lparr>completed = 1, outOf = 0\<rparr>"
proof -
  have h: "mfaDone (normalize_str (point useMFA)) = Some True"
    by code_simp
  from completed_and_ignored_item [where chk = mfaDone and ig = mfaDone and it = useMFA and ttl = "''Auth''", OF h h]
  obtain p where
    "calculateProgress (Some mfaDone) (Some mfaDone) [\<lparr>title = ''Auth'', checklist = [useMFA]\<rparr>]
       = Inr p"
    and "completed p = 1" and "outOf p = 0"
    by blast
  with h show ?thesis by simp
qed

subsection \<open>An item of no known tier\<close>



subsection \<open>Lemmas on the percentages\<close>

lemma Promise_all_map_Inr: "Promise_all (map (\<lambda>x. Inr (f x)) xs) = Inr (map f xs)"
  by (induction xs) simp_all

lemma calculatePercentage_Inr:
  "calculateProgress chk ign (filterByPriority [s] t) = Inr p \<Longrightarrow>
     calculatePercentage chk ign s t = Inr (percentOf p)"
  by (simp add: calculatePercentage_def percentOf_def)

lemma calculatePercentage_Some:
  "calculatePercentage chk (Some ig) s t =
     Inr (percentOf (projr (calculateProgress chk (Some ig) (filterByPriority [s] t))))"
proof -
  obtain p where "calculateProgress chk (Some ig) (filterByPriority [s] t) = Inr p"
    using calculateProgress_total by blast
  then show ?thesis by (simp add: calculatePercentage_Inr)
qed

lemma buildDataForPriority_Some:
  "buildDataForPriority chk (Some ig) secs t col =
     Inr \<lparr>borderWidth = 1, label = capitalize t,
          data = map (\<lambda>s. percentOf (projr (calculateProgress chk (Some ig)
                                              (filterByPriority [s] t)))) secs,
          backgroundColor = col\<rparr>"
  by (simp add: buildDataForPriority_def calculatePercentage_Some Promise_all_map_Inr)

lemma makeRadarData_Some:
  "makeRadarData chk (Some ig) secs =
     Inr \<lparr>labels = map title secs,
          datasets =
            map (\<lambda>(t, col).
                   \<lparr>borderWidth = 1, label = capitalize t,
                    data = map (\<lambda>s. percentOf (projr (calculateProgress chk (Some ig)
                                                        (filterByPriority [s] t)))) secs,
                    backgroundColor = col\<rparr>)
              (zip tiers [''hsl(0 91% 71%/75%)'', ''hsl(43 96% 56%/75%)'',
                          ''hsl(158 64% 52%/75%)''])\<rparr>"
  by (simp add: makeRadarData_def buildDataForPriority_Some tiers_def)

lemma capitalize_tiers: "map capitalize tiers = [''Advanced'', ''Optional'', ''Recommended'']"
  by code_simp

lemma tier_index: "k < length tiers \<Longrightarrow> k = 0 \<or> k = 1 \<or> k = 2"
  by (auto simp: tiers_def)

lemma calculatePercentage_outOf_zero:
  "calculateProgress chk ign (filterByPriority [s] t) = Inr p \<Longrightarrow> outOf p = 0 \<Longrightarrow>
     calculatePercentage chk ign s t = Inr (Num 0)"
  by (simp add: calculatePercentage_def)

lemma makeDataAndDrawChart_outOf_zero:
  "calculateProgress chk ign (filterByPriority secs t) = Inr p \<Longrightarrow> outOf p = 0 \<Longrightarrow>
     makeDataAndDrawChart chk ign secs t =
       Inr (if completed p = 0 then NaN else if 0 < completed p then PosInf else NegInf)"
  by (simp add: makeDataAndDrawChart_def)

subsection \<open>The radar dataset\<close>

text \<open>
  C4. With the ignore state present as a mapping, for every list of sections
  \<^verbatim>\<open>makeRadarData\<close> resolves to a dataset whose labels are the section titles in catalog
  order (as many labels as sections), with one series per tier (advanced, optional,
  recommended, labelled by the capitalised tier); the data of every series has one value
  per section, and the i-th value is \<^verbatim>\<open>outOf > 0 ? completed/outOf*100 : 0\<close> for the
  result of \<^verbatim>\<open>calculateProgress\<close> on the i-th section alone, filtered to the tier of the
  series.
\<close>

theorem makeRadarData_dataset:
  "\<exists>r. makeRadarData chk (Some ig) secs = Inr r
      \<and> labels r = map title secs
      \<and> length (labels r) = length secs
      \<and> length (datasets r) = length tiers
      \<and> map label (datasets r) = [''Advanced'', ''Optional'', ''Recommended'']
      \<and> (\<forall>k<length tiers.
            length (data (datasets r ! k)) = length secs
          \<and> (\<forall>i<length secs.
                \<exists>p. calculateProgress chk (Some ig) (filterByPriority [secs ! i] (tiers ! k))
                       = Inr p
                    \<and> data (datasets r ! k) ! i =
                        (if 0 < outOf p
                         then Num (of_int (completed p) / of_int (outOf p) * 100)
                         else Num 0)))"
proof -
  let ?pct = "\<lambda>t s. percentOf (projr (calculateProgress chk (Some ig) (filterByPriority [s] t)))"
  let ?ds = "\<lambda>(t, col). \<lparr>borderWidth = 1, label = capitalize t, data = map (?pct t) secs,
                            backgroundColor = col\<rparr>"
  let ?cols = "[''hsl(0 91% 71%/75%)'', ''hsl(43 96% 56%/75%)'', ''hsl(158 64% 52%/75%)'']"
  let ?r = "\<lparr>labels = map title secs, datasets = map ?ds (zip tiers ?cols)\<rparr>"
  have r: "makeRadarData chk (Some ig) secs = Inr ?r"
    by (rule makeRadarData_Some)
  have len: "length (datasets ?r) = length tiers"
    by (simp add: tiers_def)
  have lab: "map label (datasets ?r) = [''Advanced'', ''Optional'', ''Recommended'']"
    using capitalize_tiers by (simp add: tiers_def)
  have dat: "data (datasets ?r ! k) = map (?pct (tiers ! k)) secs" if "k < length tiers" for k
    using tier_index [OF that] by (auto simp: tiers_def)
  have val: "\<exists>p. calculateProgress chk (Some ig) (filterByPriority [secs ! i] t) = Inr p
                \<and> ?pct t (secs ! i) =
                    (if 0 < outOf p
                     then Num (of_int (completed p) / of_int (outOf p) * 100)
                     else Num 0)" for i t
  proof -
    obtain p where "calculateProgress chk (Some ig) (filterByPriority [secs ! i] t) = Inr p"
      using calculateProgress_total by blast
    then show ?thesis by (simp add: percentOf_def)
  qed
  have series: "\<forall>k<length tiers.
            length (data (datasets ?r ! k)) = length secs
          \<and> (\<forall>i<length secs.
                \<exists>p. calculateProgress chk (Some ig) (filterByPriority [secs ! i] (tiers ! k))
                       = Inr p
                    \<and> data (datasets ?r ! k) ! i =
                        (if 0 < outOf p
                         then Num (of_int (completed p) / of_int (outOf p) * 100)
                         else Num 0))"
  proof (intro allI impI conjI)
    fix k assume k: "k < length tiers"
    show "length (data (datasets ?r ! k)) = length secs"
      by (simp only: dat [OF k] length_map)
    fix i assume i: "i < length secs"
    show "\<exists>p. calculateProgress chk (Some ig) (filterByPriority [secs ! i] (tiers ! k))
                       = Inr p
                    \<and> data (datasets ?r ! k) ! i =
                        (if 0 < outOf p
                         then Num (of_int (completed p) / of_int (outOf p) * 100)
                         else Num 0)"
      using val [of i "tiers ! k"] i by (simp only: dat [OF k] nth_map)
  qed
  have "labels ?r = map title secs" "length (labels ?r) = length secs"
    by simp_all
  with r len lab series show ?thesis
    by (intro exI [of _ ?r] conjI)
qed

theorem makeRadarData_dataset_witness:
  "(2::nat) < length tiers \<and> (0::nat) < length [auth]
   \<and> (\<exists>r. makeRadarData (Some mfaDone) (Some Map.empty) [auth] = Inr r
         \<and> labels r = [''Auth'']
         \<and> length (data (datasets r ! 2)) = 1
         \<and> data (datasets r ! 2) ! 0 = Num 100)"
proof -
  have k: "(2::nat) < length tiers" by (simp add: tiers_def)
  have i: "(0::nat) < length [auth]" by simp
  have t: "map title [auth] = [''Auth'']" by (simp add: auth_def)
  have e: "calculateProgress (Some mfaDone) (Some Map.empty)
             (filterByPriority [[auth] ! 0] (tiers ! 2)) = Inr \<lparr>completed = 1, outOf = 1\<rparr>"
    by code_simp
  from makeRadarData_dataset [of "Some mfaDone" Map.empty "[auth]"]
  obtain r where r: "makeRadarData (Some mfaDone) (Some Map.empty) [auth] = Inr r"
    and l: "labels r = map title [auth]"
    and s: "\<forall>k<length tiers.
            length (data (datasets r ! k)) = length [auth]
          \<and> (\<forall>i<length [auth].
                \<exists>p. calculateProgress (Some mfaDone) (Some Map.empty)
                       (filterByPriority [[auth] ! i] (tiers ! k)) = Inr p
                    \<and> data (datasets r ! k) ! i =
                        (if 0 < outOf p
                         then Num (of_int (completed p) / of_int (outOf p) * 100)
                         else Num 0))"
    by blast
  from s k have n: "length (data (datasets r ! 2)) = length [auth]"
    by blast
  from s k i obtain p where
    "calculateProgress (Some mfaDone) (Some Map.empty)
       (filterByPriority [[auth] ! 0] (tiers ! 2)) = Inr p"
    and v: "data (datasets r ! 2) ! 0 =
              (if 0 < outOf p then Num (of_int (completed p) / of_int (outOf p) * 100)
               else Num 0)"
    by blast
  with e have "p = \<lparr>completed = 1, outOf = 1\<rparr>" by simp
  with v have "data (datasets r ! 2) ! 0 = Num 100" by simp
  with r l t n k i show ?thesis by auto
qed

subsection \<open>The percentage of a gauge when nothing is left to count\<close>

text \<open>
  C1. A percentage derived from a result with \<^verbatim>\<open>outOf == 0\<close> should be 0. The radar path
  has the guard; the gauge path divides without it. The example catalog has no advanced
  item: the aggregation of the catalog filtered to \<^verbatim>\<open>advanced\<close> is
  \<^verbatim>\<open>{ completed: 0, outOf: 0 }\<close>, \<^verbatim>\<open>makeDataAndDrawChart\<close> hands
  \<^verbatim>\<open>Math.round((0 / 0) * 100)\<close>, that is \<^verbatim>\<open>NaN\<close>, to \<^verbatim>\<open>drawProgress\<close>, and
  \<^verbatim>\<open>calculatePercentage\<close> gives 0 for the same section and tier.
\<close>

theorem gauge_percentage_not_guarded:
  "calculateProgress (Some mfaDone) (Some Map.empty) (filterByPriority [auth] ''advanced'') =
     Inr \<lparr>completed = 0, outOf = 0\<rparr>
   \<and> makeDataAndDrawChart (Some mfaDone) (Some Map.empty) [auth] ''advanced'' = Inr NaN
   \<and> calculatePercentage (Some mfaDone) (Some Map.empty) auth ''advanced'' = Inr (Num 0)"
  by code_simp


end
